theory Spec2Isabelle
  imports Main "HOL-Library.AList"
begin

section \<open>Python values, errors and conversions\<close>

text \<open>
  The module \<^verbatim>\<open>backup/snapshots.py\<close> defines three classes: \<^verbatim>\<open>DriveSnapshot\<close> (a view of a
  raw Google Drive record), \<^verbatim>\<open>HASnapshot\<close> (a view of a raw Home Assistant record) and
  \<^verbatim>\<open>Snapshot\<close> (the aggregate of the two plus the state of a pending snapshot).
  Every \<^verbatim>\<open>raise\<close> of the interpreter that the code can reach is a value \<open>Inl e\<close> of the
  result type \<open>error + 'a\<close>.
\<close>

datatype error =
    KeyError string
  | TypeError string
  | AttributeError string
  | ValueError string
  | OverflowError

text \<open>
  The values a flat Home Assistant record holds: JSON scalars without fractions.
  Binary64 numbers are outside this value type.
\<close>

datatype scalar = SNone | SBool bool | SInt int | SStr string

text \<open>A \<^verbatim>\<open>datetime\<close> is kept as its position on the time line.\<close>

type_synonym datetime = int

text \<open>\<^verbatim>\<open>str(n)\<close> of a Python integer: decimal digits, a minus sign when negative.\<close>

definition digit_char :: "nat \<Rightarrow> char" where
  "digit_char d = ''0123456789'' ! (d mod 10)"

fun str_nat :: "nat \<Rightarrow> string" where
  "str_nat n = (if n < 10 then [digit_char n] else str_nat (n div 10) @ [digit_char n])"

declare str_nat.simps [simp del]

definition str_int :: "int \<Rightarrow> string" where
  "str_int i = (if i < 0 then CHR ''-'' # str_nat (nat (- i)) else str_nat (nat i))"

text \<open>\<^verbatim>\<open>str(b)\<close> of a Python boolean.\<close>

definition str_bool :: "bool \<Rightarrow> string" where
  "str_bool b = (if b then ''True'' else ''False'')"

text \<open>\<^verbatim>\<open>str(v)\<close>, \<^verbatim>\<open>bool(v)\<close> and \<^verbatim>\<open>int(v)\<close> on the scalars.\<close>

fun py_str :: "scalar \<Rightarrow> string" where
  "py_str SNone = ''None''"
| "py_str (SBool b) = str_bool b"
| "py_str (SInt i) = str_int i"
| "py_str (SStr s) = s"

fun py_bool :: "scalar \<Rightarrow> bool" where
  "py_bool SNone = False"
| "py_bool (SBool b) = b"
| "py_bool (SInt i) = (i \<noteq> 0)"
| "py_bool (SStr s) = (s \<noteq> [])"

text \<open>
  \<^verbatim>\<open>int(s)\<close> of a string reads a base-10 literal: white space around it is dropped, one
  sign may lead, and single underscores may stand between digits. Strings are ASCII here.
\<close>

definition is_space :: "char \<Rightarrow> bool" where
  "is_space c = (of_char c \<in> set [9, 10, 11, 12, 13, 28, 29, 30, 31, 32 :: nat])"

definition is_digit :: "char \<Rightarrow> bool" where
  "is_digit c = (48 \<le> (of_char c :: nat) \<and> (of_char c :: nat) \<le> 57)"

fun digits_value :: "nat \<Rightarrow> string \<Rightarrow> nat option" where
  "digits_value acc [] = Some acc"
| "digits_value acc [c] =
     (if is_digit c then Some (acc * 10 + (of_char c - 48)) else None)"
| "digits_value acc (c # d # cs) =
     (if is_digit c then
        (if d = CHR ''_'' then
           (if cs = [] then None
            else if is_digit (hd cs) then digits_value (acc * 10 + (of_char c - 48)) cs
            else None)
         else digits_value (acc * 10 + (of_char c - 48)) (d # cs))
      else None)"

definition strip_spaces :: "string \<Rightarrow> string" where
  "strip_spaces s = rev (dropWhile is_space (rev (dropWhile is_space s)))"

definition int_of_str :: "string \<Rightarrow> error + int" where
  "int_of_str s =
     (let t = strip_spaces s;
          neg = (t \<noteq> [] \<and> hd t = CHR ''-'');
          body = (if t \<noteq> [] \<and> (hd t = CHR ''-'' \<or> hd t = CHR ''+'') then tl t else t)
      in if body = [] then Inl (ValueError ''invalid literal for int()'')
         else (case digits_value 0 body of
                 None \<Rightarrow> Inl (ValueError ''invalid literal for int()'')
               | Some n \<Rightarrow> Inr (if neg then - int n else int n)))"

fun py_int :: "scalar \<Rightarrow> error + int" where
  "py_int SNone = Inl (TypeError ''int() argument must be a string or a number'')"
| "py_int (SBool b) = Inr (if b then 1 else 0)"
| "py_int (SInt i) = Inr i"
| "py_int (SStr s) = int_of_str s"

text \<open>
  \<^verbatim>\<open>float(n)\<close> of a Python integer is the nearest binary64 number, ties to the even
  significand, and an \<^verbatim>\<open>OverflowError\<close> beyond the largest one. The result is always a whole
  number, so it is kept as an integer: below \<open>2 ^ 53\<close> in magnitude the conversion is exact.
\<close>

function bit_length :: "int \<Rightarrow> nat" where
  "bit_length n = (if n \<le> 0 then 0 else Suc (bit_length (n div 2)))"
  by pat_completeness auto
termination
  by (relation "measure nat") auto

declare bit_length.simps [simp del]

definition py_float :: "int \<Rightarrow> error + int" where
  "py_float n =
     (let a = \<bar>n\<bar> in
      if a < 2 ^ 53 then Inr n
      else
        let e = bit_length a - 53;
            q = a div 2 ^ e;
            r = a mod 2 ^ e;
            m = (if 2 * r > 2 ^ e \<or> (2 * r = 2 ^ e \<and> odd q) then q + 1 else q);
            v = m * 2 ^ e
        in if v \<ge> 2 ^ 1024 then Inl OverflowError else Inr (sgn n * v))"


section \<open>The two record views\<close>

definition PROP_KEY_SLUG :: string where "PROP_KEY_SLUG = ''snapshot_slug''"
definition PROP_KEY_DATE :: string where "PROP_KEY_DATE = ''snapshot_date''"
definition PROP_KEY_NAME :: string where "PROP_KEY_NAME = ''snapshot_name''"
definition PROP_TYPE :: string where "PROP_TYPE = ''type''"
definition PROP_VERSION :: string where "PROP_VERSION = ''version''"
definition PROP_PROTECTED :: string where "PROP_PROTECTED = ''protected''"
definition PROP_RETAINED :: string where "PROP_RETAINED = ''retained''"

text \<open>
  A raw Drive record is a mapping with the entries \<^verbatim>\<open>id\<close>, \<^verbatim>\<open>size\<close> and \<^verbatim>\<open>appProperties\<close>;
  each may be absent (\<open>None\<close>, what \<^verbatim>\<open>.get\<close> returns then). The accessors return the entries
  as they are, under the annotations \<^verbatim>\<open>-> str\<close> and \<^verbatim>\<open>-> int\<close>, so \<^verbatim>\<open>id\<close> is a string and
  \<^verbatim>\<open>size\<close> an integer. The entry \<^verbatim>\<open>appProperties\<close> is a reference to a second mapping object,
  from strings to strings, which lives in a store: mappings are mutable and shared by
  reference, and \<^verbatim>\<open>setRetain\<close> writes into that object.
\<close>

type_synonym addr = nat

type_synonym props = "(string \<times> string) list"

type_synonym store = "addr \<Rightarrow> props"

record raw_drive =
  raw_id :: "string option"
  raw_size :: "int option"
  raw_appProperties :: "addr option"

text \<open>
  \<^verbatim>\<open>parseDateTime\<close> comes from the module \<^verbatim>\<open>helpers\<close>; it is a parameter \<open>parse\<close> of the two
  constructors.
\<close>

type_synonym parser = "scalar \<Rightarrow> error + datetime"

record DriveSnapshot =
  drive_source :: raw_drive
  drive_date :: datetime

text \<open>
  \<^verbatim>\<open>self.source.get('appProperties')[key]\<close>: subscripting \<^verbatim>\<open>None\<close> is a \<^verbatim>\<open>TypeError\<close>, a key
  the mapping does not hold is a \<^verbatim>\<open>KeyError\<close>.
\<close>

definition props_item :: "store \<Rightarrow> raw_drive \<Rightarrow> string \<Rightarrow> error + string" where
  "props_item st src k =
     (case raw_appProperties src of
        None \<Rightarrow> Inl (TypeError ''NoneType object is not subscriptable'')
      | Some a \<Rightarrow>
          (case map_of (st a) k of
             None \<Rightarrow> Inl (KeyError k)
           | Some v \<Rightarrow> Inr v))"

text \<open>
  \<^verbatim>\<open>props = self.source.get('appProperties')\<close>, then \<^verbatim>\<open>props[key] if key in props else dflt\<close>;
  the test \<^verbatim>\<open>key in None\<close> is a \<^verbatim>\<open>TypeError\<close>.
\<close>

definition props_get :: "store \<Rightarrow> raw_drive \<Rightarrow> string \<Rightarrow> error + string option" where
  "props_get st src k =
     (case raw_appProperties src of
        None \<Rightarrow> Inl (TypeError ''argument of type NoneType is not iterable'')
      | Some a \<Rightarrow> Inr (map_of (st a) k))"

text \<open>
  \<^verbatim>\<open>DriveSnapshot.__init__\<close>: \<^verbatim>\<open>source.copy()\<close> makes a new top-level mapping with the same
  entries, among them the same reference to the nested mapping; then the date is read
  and parsed. No other key is read.
\<close>

definition DriveSnapshot_init :: "parser \<Rightarrow> store \<Rightarrow> raw_drive \<Rightarrow> error + DriveSnapshot" where
  "DriveSnapshot_init parse st source =
     (let copy = source in
      case props_item st copy PROP_KEY_DATE of
        Inl e \<Rightarrow> Inl e
      | Inr v \<Rightarrow>
          (case parse (SStr v) of
             Inl e \<Rightarrow> Inl e
           | Inr t \<Rightarrow> Inr \<lparr>drive_source = copy, drive_date = t\<rparr>))"

definition DriveSnapshot_id :: "DriveSnapshot \<Rightarrow> string" where
  "DriveSnapshot_id d = (case raw_id (drive_source d) of None \<Rightarrow> ''None'' | Some s \<Rightarrow> s)"

definition DriveSnapshot_name :: "store \<Rightarrow> DriveSnapshot \<Rightarrow> error + string" where
  "DriveSnapshot_name st d = props_item st (drive_source d) PROP_KEY_NAME"

definition DriveSnapshot_slug :: "store \<Rightarrow> DriveSnapshot \<Rightarrow> error + string" where
  "DriveSnapshot_slug st d = props_item st (drive_source d) PROP_KEY_SLUG"

text \<open>\<^verbatim>\<open>size()\<close> returns \<^verbatim>\<open>None\<close> when the record has no size.\<close>

definition DriveSnapshot_size :: "DriveSnapshot \<Rightarrow> int option" where
  "DriveSnapshot_size d = raw_size (drive_source d)"

definition DriveSnapshot_date :: "DriveSnapshot \<Rightarrow> datetime" where
  "DriveSnapshot_date d = drive_date d"

definition DriveSnapshot_snapshotType :: "store \<Rightarrow> DriveSnapshot \<Rightarrow> error + string" where
  "DriveSnapshot_snapshotType st d =
     (case props_get st (drive_source d) PROP_TYPE of
        Inl e \<Rightarrow> Inl e
      | Inr None \<Rightarrow> Inr ''full''
      | Inr (Some v) \<Rightarrow> Inr v)"

definition DriveSnapshot_version :: "store \<Rightarrow> DriveSnapshot \<Rightarrow> error + string" where
  "DriveSnapshot_version st d =
     (case props_get st (drive_source d) PROP_VERSION of
        Inl e \<Rightarrow> Inl e
      | Inr None \<Rightarrow> Inr ''?''
      | Inr (Some v) \<Rightarrow> Inr v)"

definition DriveSnapshot_protected :: "store \<Rightarrow> DriveSnapshot \<Rightarrow> error + bool" where
  "DriveSnapshot_protected st d =
     (case props_get st (drive_source d) PROP_PROTECTED of
        Inl e \<Rightarrow> Inl e
      | Inr None \<Rightarrow> Inr False
      | Inr (Some v) \<Rightarrow> Inr (v = ''true'' \<or> v = ''True''))"

definition DriveSnapshot_retained :: "store \<Rightarrow> DriveSnapshot \<Rightarrow> error + bool" where
  "DriveSnapshot_retained st d =
     (case props_get st (drive_source d) PROP_RETAINED of
        Inl e \<Rightarrow> Inl e
      | Inr None \<Rightarrow> Inr False
      | Inr (Some v) \<Rightarrow> Inr (v = ''true'' \<or> v = ''True''))"

text \<open>
  \<^verbatim>\<open>setRetain\<close> assigns \<^verbatim>\<open>str(retain)\<close> under the key \<^verbatim>\<open>retained\<close> of the nested mapping
  object: the store changes at the address the record holds. An existing key keeps its
  place, a new key goes last.
\<close>

definition DriveSnapshot_setRetain :: "bool \<Rightarrow> DriveSnapshot \<Rightarrow> store \<Rightarrow> error + store" where
  "DriveSnapshot_setRetain retain d st =
     (case raw_appProperties (drive_source d) of
        None \<Rightarrow> Inl (TypeError ''NoneType object does not support item assignment'')
      | Some a \<Rightarrow> Inr (st(a := AList.update PROP_RETAINED (str_bool retain) (st a))))"

text \<open>
  A raw Home Assistant record is a flat mapping from strings to scalars, so its copy
  shares nothing with the original. Reading a key the mapping does not hold is a
  \<^verbatim>\<open>KeyError\<close>.
\<close>

type_synonym raw_ha = "(string \<times> scalar) list"

record HASnapshot =
  ha_source :: raw_ha
  ha_retained :: bool
  ha_date :: datetime

definition ha_item :: "raw_ha \<Rightarrow> string \<Rightarrow> error + scalar" where
  "ha_item src k = (case map_of src k of None \<Rightarrow> Inl (KeyError k) | Some v \<Rightarrow> Inr v)"

definition HASnapshot_init :: "parser \<Rightarrow> raw_ha \<Rightarrow> bool \<Rightarrow> error + HASnapshot" where
  "HASnapshot_init parse source retained =
     (let copy = source in
      case ha_item copy ''date'' of
        Inl e \<Rightarrow> Inl e
      | Inr v \<Rightarrow>
          (case parse v of
             Inl e \<Rightarrow> Inl e
           | Inr t \<Rightarrow> Inr \<lparr>ha_source = copy, ha_retained = retained, ha_date = t\<rparr>))"

definition HASnapshot_name :: "HASnapshot \<Rightarrow> error + string" where
  "HASnapshot_name a = map_sum id py_str (ha_item (ha_source a) ''name'')"

definition HASnapshot_slug :: "HASnapshot \<Rightarrow> error + string" where
  "HASnapshot_slug a = map_sum id py_str (ha_item (ha_source a) ''slug'')"

definition HASnapshot_size :: "HASnapshot \<Rightarrow> error + int" where
  "HASnapshot_size a =
     (case ha_item (ha_source a) ''size'' of
        Inl e \<Rightarrow> Inl e
      | Inr v \<Rightarrow> map_sum id (\<lambda>n. n * 1024 * 1024) (py_int v))"

definition HASnapshot_date :: "HASnapshot \<Rightarrow> datetime" where
  "HASnapshot_date a = ha_date a"

definition HASnapshot_snapshotType :: "HASnapshot \<Rightarrow> error + string" where
  "HASnapshot_snapshotType a = map_sum id py_str (ha_item (ha_source a) ''type'')"

definition HASnapshot_version :: "HASnapshot \<Rightarrow> error + string" where
  "HASnapshot_version a = map_sum id py_str (ha_item (ha_source a) ''homeassistant'')"

definition HASnapshot_protected :: "HASnapshot \<Rightarrow> error + bool" where
  "HASnapshot_protected a = map_sum id py_bool (ha_item (ha_source a) ''protected'')"

definition HASnapshot_retained :: "HASnapshot \<Rightarrow> bool" where
  "HASnapshot_retained a = ha_retained a"

datatype AbstractSnapshot = HA HASnapshot | Drive DriveSnapshot


section \<open>The aggregate\<close>

text \<open>
  The fields of \<^verbatim>\<open>Snapshot\<close> as \<^verbatim>\<open>__init__\<close> creates them, and two attributes that other
  methods create on the instance: \<open>drive\<close>, which \<^verbatim>\<open>update\<close> assigns (\<open>None\<close> while the
  attribute does not exist), and \<open>downloadFailed_attr\<close>, the instance attribute
  \<^verbatim>\<open>downloadFailed\<close> that \<^verbatim>\<open>setDownloading\<close> assigns and that from then on hides the method
  of the same name (\<open>None\<close> while the method is still reachable).
\<close>

record Snapshot =
  driveitem :: "DriveSnapshot option"
  pending :: bool
  ha :: "HASnapshot option"
  donwloading :: int
  donwload_failed :: bool
  pending_name :: "string option"
  pending_date :: "datetime option"
  pending_slug :: "string option"
  uploading_pct :: int
  pendingHasFailed :: bool
  will_backup :: bool
  restoring :: "bool option"
  deleteNextFromDrive :: "bool option"
  deleteNextFromHa :: "bool option"
  pending_retain_drive :: bool
  pending_retain_ha :: bool
  drive :: "DriveSnapshot option"
  downloadFailed_attr :: "bool option"

definition Snapshot_init :: "AbstractSnapshot option \<Rightarrow> Snapshot" where
  "Snapshot_init snapshot =
     \<lparr>driveitem = (case snapshot of Some (Drive d) \<Rightarrow> Some d | _ \<Rightarrow> None),
      pending = (case snapshot of Some (HA a) \<Rightarrow> False | Some (Drive d) \<Rightarrow> False | None \<Rightarrow> True),
      ha = (case snapshot of Some (HA a) \<Rightarrow> Some a | _ \<Rightarrow> None),
      donwloading = - 1,
      donwload_failed = False,
      pending_name = Some [],
      pending_date = None,
      pending_slug = None,
      uploading_pct = - 1,
      pendingHasFailed = False,
      will_backup = True,
      restoring = None,
      deleteNextFromDrive = None,
      deleteNextFromHa = None,
      pending_retain_drive = False,
      pending_retain_ha = False,
      drive = None,
      downloadFailed_attr = None\<rparr>"

definition set_deleteNextFromDrive :: "bool option \<Rightarrow> Snapshot \<Rightarrow> Snapshot" where
  "set_deleteNextFromDrive delete s = s\<lparr>deleteNextFromDrive := delete\<rparr>"

definition set_deleteNextFromHa :: "bool option \<Rightarrow> Snapshot \<Rightarrow> Snapshot" where
  "set_deleteNextFromHa delete s = s\<lparr>deleteNextFromHa := delete\<rparr>"

definition Snapshot_setPending :: "string \<Rightarrow> datetime \<Rightarrow> bool \<Rightarrow> bool \<Rightarrow> Snapshot \<Rightarrow> Snapshot" where
  "Snapshot_setPending name date retain_drive retain_ha s =
     s\<lparr>pending_name := Some name,
       pending_date := Some date,
       pending_slug := Some ''PENDING'',
       pending := True,
       pending_retain_drive := retain_drive,
       pending_retain_ha := retain_ha\<rparr>"

definition Snapshot_endPending :: "string \<Rightarrow> Snapshot \<Rightarrow> Snapshot" where
  "Snapshot_endPending slug s = s\<lparr>pending_slug := Some slug\<rparr>"

definition Snapshot_pendingFailed :: "Snapshot \<Rightarrow> Snapshot" where
  "Snapshot_pendingFailed s = s\<lparr>pendingHasFailed := True\<rparr>"

definition Snapshot_setWillBackup :: "bool \<Rightarrow> Snapshot \<Rightarrow> Snapshot" where
  "Snapshot_setWillBackup will s = s\<lparr>will_backup := will\<rparr>"

definition Snapshot_isInDrive :: "Snapshot \<Rightarrow> bool" where
  "Snapshot_isInDrive s = (driveitem s \<noteq> None)"

definition Snapshot_isInHA :: "Snapshot \<Rightarrow> bool" where
  "Snapshot_isInHA s = (ha s \<noteq> None)"

text \<open>
  The accessors test \<^verbatim>\<open>if self.driveitem\<close> and \<^verbatim>\<open>if self.ha\<close>: an instance of either class is
  true, \<^verbatim>\<open>None\<close> is false. \<^verbatim>\<open>self.pending and self.pending_name\<close> is false for \<^verbatim>\<open>None\<close> and
  for the empty string.
\<close>

definition Snapshot_name :: "store \<Rightarrow> Snapshot \<Rightarrow> error + string" where
  "Snapshot_name st s =
     (case driveitem s of
        Some d \<Rightarrow> DriveSnapshot_name st d
      | None \<Rightarrow>
          (case ha s of
             Some a \<Rightarrow> HASnapshot_name a
           | None \<Rightarrow>
               (if pending s then
                  (case pending_name s of
                     None \<Rightarrow> Inr ''error''
                   | Some n \<Rightarrow> if n \<noteq> [] then Inr n else Inr ''error'')
                else Inr ''error'')))"

definition Snapshot_slug :: "store \<Rightarrow> Snapshot \<Rightarrow> error + string" where
  "Snapshot_slug st s =
     (case driveitem s of
        Some d \<Rightarrow> DriveSnapshot_slug st d
      | None \<Rightarrow>
          (case ha s of
             Some a \<Rightarrow> HASnapshot_slug a
           | None \<Rightarrow>
               (if pending s then
                  (case pending_slug s of
                     None \<Rightarrow> Inr ''error''
                   | Some n \<Rightarrow> if n \<noteq> [] then Inr n else Inr ''error'')
                else Inr ''error'')))"

text \<open>\<^verbatim>\<open>size()\<close> passes on what the Drive record gives, \<^verbatim>\<open>None\<close> included.\<close>

definition Snapshot_size :: "Snapshot \<Rightarrow> error + int option" where
  "Snapshot_size s =
     (case driveitem s of
        Some d \<Rightarrow> Inr (DriveSnapshot_size d)
      | None \<Rightarrow>
          (case ha s of
             Some a \<Rightarrow> map_sum id Some (HASnapshot_size a)
           | None \<Rightarrow> Inr (Some 0)))"

text \<open>
  \<^verbatim>\<open>snapshotType()\<close> reads \<^verbatim>\<open>self.driveItem\<close> in its second branch, an attribute no method
  assigns (the field is \<^verbatim>\<open>driveitem\<close>): the read raises \<^verbatim>\<open>AttributeError\<close>. \<^verbatim>\<open>version()\<close> calls
  \<^verbatim>\<open>snapshotType()\<close> of the record in both branches.
\<close>

definition Snapshot_snapshotType :: "Snapshot \<Rightarrow> error + string" where
  "Snapshot_snapshotType s =
     (case ha s of
        Some a \<Rightarrow> HASnapshot_snapshotType a
      | None \<Rightarrow>
          (case driveitem s of
             Some d \<Rightarrow> Inl (AttributeError ''driveItem'')
           | None \<Rightarrow> Inr ''pending''))"

definition Snapshot_version :: "store \<Rightarrow> Snapshot \<Rightarrow> error + string" where
  "Snapshot_version st s =
     (case ha s of
        Some a \<Rightarrow> HASnapshot_snapshotType a
      | None \<Rightarrow>
          (case driveitem s of
             Some d \<Rightarrow> DriveSnapshot_snapshotType st d
           | None \<Rightarrow> Inr ''?''))"

definition Snapshot_protected :: "store \<Rightarrow> Snapshot \<Rightarrow> error + bool" where
  "Snapshot_protected st s =
     (case ha s of
        Some a \<Rightarrow> HASnapshot_protected a
      | None \<Rightarrow>
          (case driveitem s of
             Some d \<Rightarrow> DriveSnapshot_protected st d
           | None \<Rightarrow> Inr False))"

text \<open>
  \<^verbatim>\<open>date()\<close> falls back to \<^verbatim>\<open>datetime.now()\<close>, the parameter \<open>now\<close>. A \<^verbatim>\<open>datetime\<close> is always
  true, so \<^verbatim>\<open>self.pending and self.pending_date\<close> tests for \<^verbatim>\<open>None\<close> only.
\<close>

definition Snapshot_date :: "datetime \<Rightarrow> Snapshot \<Rightarrow> datetime" where
  "Snapshot_date now s =
     (case driveitem s of
        Some d \<Rightarrow> DriveSnapshot_date d
      | None \<Rightarrow>
          (case ha s of
             Some a \<Rightarrow> HASnapshot_date a
           | None \<Rightarrow>
               (if pending s
                then (case pending_date s of Some t \<Rightarrow> t | None \<Rightarrow> now)
                else now)))"

text \<open>
  \<^verbatim>\<open>sizeString()\<close> converts the size with \<^verbatim>\<open>float\<close>, compares with \<open>\<le>\<close> and truncates the
  quotient with \<^verbatim>\<open>int\<close>. The converted size is a whole number and the divisors are powers
  of two, so each quotient is exact in binary64 and its truncation is \<open>div\<close>; the
  quotients are taken of sizes above 1024 only.
\<close>

definition Snapshot_sizeString :: "Snapshot \<Rightarrow> error + string" where
  "Snapshot_sizeString s =
     (case Snapshot_size s of
        Inl e \<Rightarrow> Inl e
      | Inr None \<Rightarrow> Inl (TypeError ''float() argument must be a string or a number'')
      | Inr (Some n) \<Rightarrow>
          (case py_float n of
             Inl e \<Rightarrow> Inl e
           | Inr size_bytes \<Rightarrow>
               Inr (if size_bytes \<le> 1024 then str_int size_bytes @ '' B''
                    else if size_bytes \<le> 1024 * 1024
                      then str_int (size_bytes div 1024) @ '' kB''
                    else if size_bytes \<le> 1024 * 1024 * 1024
                      then str_int (size_bytes div (1024 * 1024)) @ '' MB''
                    else str_int (size_bytes div (1024 * 1024 * 1024)) @ '' GB'')))"

text \<open>
  \<^verbatim>\<open>setDownloading\<close> stores the percentage and assigns \<^verbatim>\<open>False\<close> to the instance attribute
  \<^verbatim>\<open>downloadFailed\<close>; the field \<^verbatim>\<open>donwload_failed\<close> is not written. The method
  \<^verbatim>\<open>downloadFailed()\<close> sets the field; once the instance attribute hides it, the call is a
  call of a boolean, a \<^verbatim>\<open>TypeError\<close>.
\<close>

definition Snapshot_setDownloading :: "int \<Rightarrow> Snapshot \<Rightarrow> Snapshot" where
  "Snapshot_setDownloading percent s =
     s\<lparr>donwloading := percent, downloadFailed_attr := Some False\<rparr>"

definition Snapshot_downloadFailed :: "Snapshot \<Rightarrow> error + Snapshot" where
  "Snapshot_downloadFailed s =
     (case downloadFailed_attr s of
        None \<Rightarrow> Inr (s\<lparr>donwload_failed := True\<rparr>)
      | Some b \<Rightarrow> Inl (TypeError ''bool object is not callable''))"

definition Snapshot_isDownloading :: "Snapshot \<Rightarrow> bool" where
  "Snapshot_isDownloading s = (donwloading s \<ge> 0)"

definition Snapshot_isRestoring :: "Snapshot \<Rightarrow> bool" where
  "Snapshot_isRestoring s = (restoring s \<noteq> None)"

definition Snapshot_status :: "Snapshot \<Rightarrow> string" where
  "Snapshot_status s =
     (if Snapshot_isRestoring s then
        (if restoring s = Some True then ''Restoring'' else ''Restore Complete'')
      else if Snapshot_isDownloading s then
        (if donwload_failed s then ''Loading Failed!''
         else if donwloading s = 100 then ''Refreshing snapshot''
         else ''Loading '' @ str_int (donwloading s) @ ''%'')
      else if Snapshot_isInDrive s \<and> Snapshot_isInHA s then ''Backed Up''
      else if Snapshot_isInDrive s \<and> \<not> Snapshot_isInHA s then ''Drive Only''
      else if \<not> Snapshot_isInDrive s \<and> Snapshot_isInHA s \<and> uploading_pct s \<ge> 0
        then ''Uploading '' @ str_int (uploading_pct s) @ ''%''
      else if \<not> Snapshot_isInDrive s \<and> Snapshot_isInHA s then
        (if will_backup s then ''Waiting'' else ''Hass.io Only'')
      else if pending s then ''Pending''
      else ''Invalid State'')"

definition Snapshot_setDrive :: "DriveSnapshot \<Rightarrow> Snapshot \<Rightarrow> Snapshot" where
  "Snapshot_setDrive d s =
     s\<lparr>driveitem := Some d,
       pending_name := None,
       pending_date := None,
       pending_slug := None,
       uploading_pct := - 1,
       pending := False\<rparr>"

definition Snapshot_setHA :: "HASnapshot \<Rightarrow> Snapshot \<Rightarrow> Snapshot" where
  "Snapshot_setHA a s =
     s\<lparr>ha := Some a,
       pending_name := None,
       pending_date := None,
       pending_slug := None,
       uploading_pct := - 1,
       pending := False,
       donwloading := - 1,
       donwload_failed := False\<rparr>"

definition Snapshot_isPending :: "Snapshot \<Rightarrow> bool" where
  "Snapshot_isPending s = (pending s \<and> \<not> Snapshot_isInHA s \<and> \<not> pendingHasFailed s)"

definition Snapshot_isDeleted :: "Snapshot \<Rightarrow> bool" where
  "Snapshot_isDeleted s =
     (\<not> Snapshot_isPending s \<and> \<not> Snapshot_isInHA s \<and> \<not> Snapshot_isInDrive s)"

text \<open>
  \<^verbatim>\<open>update\<close> assigns a \<^verbatim>\<open>HASnapshot\<close> to \<^verbatim>\<open>self.ha\<close> and anything else to \<^verbatim>\<open>self.drive\<close>.
\<close>

definition Snapshot_update :: "AbstractSnapshot \<Rightarrow> Snapshot \<Rightarrow> Snapshot" where
  "Snapshot_update snapshot s =
     (case snapshot of
        HA a \<Rightarrow> s\<lparr>ha := Some a\<rparr>
      | Drive d \<Rightarrow> s\<lparr>drive := Some d\<rparr>)"

text \<open>
  \<^verbatim>\<open>details()\<close> is the one reader of \<^verbatim>\<open>self.drive\<close>; \<^verbatim>\<open>DriveSnapshot\<close> has no method
  \<^verbatim>\<open>details\<close>, so that branch raises whether or not the attribute exists.
\<close>

definition Snapshot_details :: "Snapshot \<Rightarrow> error + raw_ha" where
  "Snapshot_details s =
     (case ha s of
        Some a \<Rightarrow> Inr (ha_source a)
      | None \<Rightarrow>
          (if Snapshot_isInDrive s then
             (case drive s of
                None \<Rightarrow> Inl (AttributeError ''drive'')
              | Some d \<Rightarrow> Inl (AttributeError ''details''))
           else Inr []))"

definition Snapshot_uploading :: "int \<Rightarrow> Snapshot \<Rightarrow> Snapshot" where
  "Snapshot_uploading percent s = s\<lparr>uploading_pct := percent\<rparr>"

text \<open>
  \<^verbatim>\<open>driveRetained()\<close> and \<^verbatim>\<open>haRetained()\<close>: \<^verbatim>\<open>and\<close> and \<^verbatim>\<open>or\<close> evaluate from the left, so the
  record's \<^verbatim>\<open>retained()\<close> is called whenever the record is attached.
\<close>

definition Snapshot_driveRetained :: "store \<Rightarrow> Snapshot \<Rightarrow> error + bool" where
  "Snapshot_driveRetained st s =
     (case driveitem s of
        None \<Rightarrow> Inr False
      | Some d \<Rightarrow>
          (case DriveSnapshot_retained st d of
             Inl e \<Rightarrow> Inl e
           | Inr b \<Rightarrow> Inr (b \<or> pending_retain_drive s)))"

definition Snapshot_haRetained :: "Snapshot \<Rightarrow> bool" where
  "Snapshot_haRetained s =
     (case ha s of
        None \<Rightarrow> False
      | Some a \<Rightarrow> HASnapshot_retained a \<or> pending_retain_ha s)"

text \<open>The mutating methods of the aggregate as one step function.\<close>

datatype call =
    SetPending string datetime bool bool
  | EndPending string
  | PendingFailed
  | SetWillBackup bool
  | SetDownloading int
  | DownloadFailed
  | SetDrive DriveSnapshot
  | SetHA HASnapshot
  | Update AbstractSnapshot
  | Uploading int
  | SetDeleteNextFromDrive "bool option"
  | SetDeleteNextFromHa "bool option"

fun step :: "call \<Rightarrow> Snapshot \<Rightarrow> error + Snapshot" where
  "step (SetPending n t rd rh) s = Inr (Snapshot_setPending n t rd rh s)"
| "step (EndPending g) s = Inr (Snapshot_endPending g s)"
| "step PendingFailed s = Inr (Snapshot_pendingFailed s)"
| "step (SetWillBackup w) s = Inr (Snapshot_setWillBackup w s)"
| "step (SetDownloading p) s = Inr (Snapshot_setDownloading p s)"
| "step DownloadFailed s = Snapshot_downloadFailed s"
| "step (SetDrive d) s = Inr (Snapshot_setDrive d s)"
| "step (SetHA a) s = Inr (Snapshot_setHA a s)"
| "step (Update x) s = Inr (Snapshot_update x s)"
| "step (Uploading p) s = Inr (Snapshot_uploading p s)"
| "step (SetDeleteNextFromDrive b) s = Inr (set_deleteNextFromDrive b s)"
| "step (SetDeleteNextFromHa b) s = Inr (set_deleteNextFromHa b s)"

section \<open>The status table of the specification\<close>

text \<open>
  The specification gives \<^verbatim>\<open>status()\<close> as eleven rules, the first matching rule winning.
  \<open>status_table\<close> follows its words: a list of conditions and labels read from the top,
  and the label of rule 11 when none matches.
\<close>

fun first_match :: "(bool \<times> string) list \<Rightarrow> string \<Rightarrow> string" where
  "first_match [] dflt = dflt"
| "first_match ((c, l) # rs) dflt = (if c then l else first_match rs dflt)"

definition status_table :: "Snapshot \<Rightarrow> string" where
  "status_table s =
     first_match
       [(restoring s = Some True, ''Restoring''),
        (restoring s = Some False, ''Restore Complete''),
        (donwloading s \<ge> 0 \<and> donwload_failed s, ''Loading Failed!''),
        (donwloading s \<ge> 0 \<and> donwloading s = 100, ''Refreshing snapshot''),
        (donwloading s \<ge> 0, ''Loading '' @ str_int (donwloading s) @ ''%''),
        (driveitem s \<noteq> None \<and> ha s \<noteq> None, ''Backed Up''),
        (driveitem s \<noteq> None \<and> ha s = None, ''Drive Only''),
        (driveitem s = None \<and> ha s \<noteq> None \<and> uploading_pct s \<ge> 0,
           ''Uploading '' @ str_int (uploading_pct s) @ ''%''),
        (driveitem s = None \<and> ha s \<noteq> None,
           if will_backup s then ''Waiting'' else ''Hass.io Only''),
        (pending s, ''Pending'')]
       ''Invalid State''"

section \<open>Sample records\<close>

text \<open>
  Concrete inputs for the evaluations below. \<open>parse_epoch\<close> stands for \<^verbatim>\<open>parseDateTime\<close>
  there: it reads a date written as a decimal count of seconds.
\<close>

definition parse_epoch :: parser where
  "parse_epoch v =
     (case v of SStr s \<Rightarrow> int_of_str s | _ \<Rightarrow> Inl (TypeError ''expected a string''))"

text \<open>
  A store with three nested mappings: a complete one at address 0, one with the date only
  at address 1, one without the date at address 2.
\<close>

definition store0 :: store where
  "store0 a =
     (if a = 0 then
        [(''snapshot_slug'', ''abc''), (''snapshot_date'', ''100''),
         (''snapshot_name'', ''Full''), (''type'', ''partial''), (''version'', ''0.91'')]
      else if a = 1 then [(''snapshot_date'', ''100'')]
      else if a = 2 then [(''snapshot_slug'', ''abc''), (''snapshot_name'', ''Full'')]
      else [])"

definition raw0 :: raw_drive where
  "raw0 = \<lparr>raw_id = Some ''id0'', raw_size = Some 1024, raw_appProperties = Some 0\<rparr>"

definition raw_date_only :: raw_drive where
  "raw_date_only = \<lparr>raw_id = Some ''id1'', raw_size = Some 1024, raw_appProperties = Some 1\<rparr>"

definition raw_no_date :: raw_drive where
  "raw_no_date = \<lparr>raw_id = Some ''id2'', raw_size = Some 1024, raw_appProperties = Some 2\<rparr>"

definition d0 :: DriveSnapshot where
  "d0 = \<lparr>drive_source = raw0, drive_date = 100\<rparr>"

definition d_fresh :: DriveSnapshot where
  "d_fresh = \<lparr>drive_source = raw0\<lparr>raw_size := Some 2048\<rparr>, drive_date = 100\<rparr>"

definition raw_ha0 :: raw_ha where
  "raw_ha0 =
     [(''slug'', SStr ''abc''), (''name'', SStr ''Full''), (''date'', SStr ''100''),
      (''size'', SInt 1), (''type'', SStr ''full''), (''homeassistant'', SStr ''0.92''),
      (''protected'', SBool False)]"

definition a0 :: HASnapshot where
  "a0 = \<lparr>ha_source = raw_ha0, ha_retained = False, ha_date = 100\<rparr>"

text \<open>A Drive-only aggregate whose record has the given size.\<close>

definition sized :: "int \<Rightarrow> Snapshot" where
  "sized n =
     Snapshot_init (Some (Drive \<lparr>drive_source = raw0\<lparr>raw_size := Some n\<rparr>, drive_date = 100\<rparr>))"

text \<open>What the caller of the constructor reads as \<^verbatim>\<open>r['appProperties']\<close> of its own record.\<close>

definition caller_props :: "store \<Rightarrow> raw_drive \<Rightarrow> props option" where
  "caller_props st r = map_option st (raw_appProperties r)"

fun is_SetHA :: "call \<Rightarrow> bool" where
  "is_SetHA (SetHA a) = True"
| "is_SetHA c = False"

text \<open>Aggregates used as concrete inputs.\<close>

definition both50 :: Snapshot where
  "both50 = Snapshot_setDownloading 50 (Snapshot_setDrive d0 (Snapshot_init (Some (HA a0))))"

definition failed_pending :: Snapshot where
  "failed_pending =
     Snapshot_pendingFailed (Snapshot_setPending ''n'' 7 True False (Snapshot_init None))"

definition failed_download :: Snapshot where
  "failed_download = (Snapshot_init (Some (Drive d0)))\<lparr>donwload_failed := True\<rparr>"

section \<open>Basic facts\<close>

lemma parse_epoch_100: "parse_epoch (SStr ''100'') = Inr 100"
  by code_simp

lemma d0_constructed: "DriveSnapshot_init parse_epoch store0 raw0 = Inr d0"
  by (simp add: DriveSnapshot_init_def props_item_def PROP_KEY_DATE_def store0_def raw0_def
      d0_def parse_epoch_100)

lemma a0_constructed: "HASnapshot_init parse_epoch raw_ha0 False = Inr a0"
  by (simp add: HASnapshot_init_def ha_item_def raw_ha0_def a0_def parse_epoch_100)

lemma d0_not_retained: "DriveSnapshot_retained store0 d0 = Inr False"
  by (simp add: DriveSnapshot_retained_def props_get_def PROP_RETAINED_def d0_def raw0_def
      store0_def)

lemma str_int_50: "str_int 50 = ''50''"
  by (simp add: str_int_def str_nat.simps digit_char_def)

lemma str_int_1023: "str_int 1023 = ''1023''"
  by (simp add: str_int_def str_nat.simps digit_char_def)

lemma str_int_1024: "str_int 1024 = ''1024''"
  by (simp add: str_int_def str_nat.simps digit_char_def)

lemma py_float_small: "\<bar>n\<bar> < 2 ^ 53 \<Longrightarrow> py_float n = Inr n"
  by (simp add: py_float_def)

lemma sizeString_small:
  "Snapshot_size s = Inr (Some n) \<Longrightarrow> \<bar>n\<bar> < 2 ^ 53 \<Longrightarrow>
   Snapshot_sizeString s =
     Inr (if n \<le> 1024 then str_int n @ '' B''
          else if n \<le> 1024 * 1024 then str_int (n div 1024) @ '' kB''
          else if n \<le> 1024 * 1024 * 1024 then str_int (n div (1024 * 1024)) @ '' MB''
          else str_int (n div (1024 * 1024 * 1024)) @ '' GB'')"
  by (simp add: Snapshot_sizeString_def py_float_small)

lemma size_sized: "Snapshot_size (sized n) = Inr (Some n)"
  by (simp add: Snapshot_size_def sized_def Snapshot_init_def DriveSnapshot_size_def)

text \<open>Every method but \<^verbatim>\<open>setHA\<close> leaves a set failure flag set.\<close>

lemma step_keeps_failure:
  "donwload_failed s1 \<Longrightarrow> step c s1 = Inr s2 \<Longrightarrow> \<not> is_SetHA c \<Longrightarrow> donwload_failed s2"
  by (cases c)
    (auto simp: Snapshot_setPending_def Snapshot_endPending_def Snapshot_pendingFailed_def
      Snapshot_setWillBackup_def Snapshot_setDownloading_def Snapshot_downloadFailed_def
      Snapshot_setDrive_def Snapshot_update_def Snapshot_uploading_def
      set_deleteNextFromDrive_def set_deleteNextFromHa_def
      split: option.splits AbstractSnapshot.splits)

section \<open>The status table\<close>

text \<open>
  C1. \<^verbatim>\<open>status()\<close> computes the first matching rule of the specification's table, read in
  its order: restoring first, then the three download rules, then the presence rules,
  then pending, else \<^verbatim>\<open>Invalid State\<close>. In particular an aggregate with both records
  attached, a download progress of 50, restoring unset and no download failure has the
  status \<^verbatim>\<open>Loading 50%\<close>.
\<close>

theorem status_priority:
  "Snapshot_status s = status_table s \<and>
   (driveitem s \<noteq> None \<and> ha s \<noteq> None \<and> donwloading s = 50 \<and> restoring s = None \<and>
    \<not> donwload_failed s \<longrightarrow> Snapshot_status s = ''Loading 50%'')"
proof
  show "Snapshot_status s = status_table s"
  proof (cases "restoring s")
    case None
    then show ?thesis
      by (simp add: Snapshot_status_def status_table_def Snapshot_isRestoring_def
          Snapshot_isDownloading_def Snapshot_isInDrive_def Snapshot_isInHA_def)
  next
    case (Some b)
    then show ?thesis
      by (cases b) (simp_all add: Snapshot_status_def status_table_def Snapshot_isRestoring_def)
  qed
  show "driveitem s \<noteq> None \<and> ha s \<noteq> None \<and> donwloading s = 50 \<and> restoring s = None \<and>
    \<not> donwload_failed s \<longrightarrow> Snapshot_status s = ''Loading 50%''"
    by (simp add: Snapshot_status_def Snapshot_isRestoring_def Snapshot_isDownloading_def
        str_int_50)
qed

theorem status_priority_witness:
  "driveitem both50 \<noteq> None \<and> ha both50 \<noteq> None \<and> donwloading both50 = 50 \<and>
   restoring both50 = None \<and> \<not> donwload_failed both50 \<and>
   Snapshot_status both50 = ''Loading 50%'' \<and> status_table both50 = ''Loading 50%''"
  using status_priority [of both50]
  by (auto simp: both50_def Snapshot_setDownloading_def Snapshot_setDrive_def Snapshot_init_def)

section \<open>Pending and deleted\<close>

text \<open>
  C2. \<^verbatim>\<open>isPending()\<close> holds exactly when the pending flag is set, no local record is
  attached and the pending-failed flag is not set. \<^verbatim>\<open>isDeleted()\<close> holds exactly when
  \<^verbatim>\<open>isPending()\<close> is false and neither record is attached; that is, when neither record is
  attached and the aggregate is not pending or its pending has failed.
\<close>

theorem isPending_isDeleted_iff:
  "Snapshot_isPending s = (pending s \<and> ha s = None \<and> \<not> pendingHasFailed s) \<and>
   Snapshot_isDeleted s = (\<not> Snapshot_isPending s \<and> ha s = None \<and> driveitem s = None) \<and>
   Snapshot_isDeleted s =
     (driveitem s = None \<and> ha s = None \<and> (\<not> pending s \<or> pendingHasFailed s))"
  by (auto simp: Snapshot_isPending_def Snapshot_isDeleted_def Snapshot_isInHA_def
      Snapshot_isInDrive_def)

theorem isPending_isDeleted_iff_witness:
  "pending failed_pending \<and> pendingHasFailed failed_pending \<and>
   \<not> Snapshot_isPending failed_pending \<and> Snapshot_isDeleted failed_pending \<and>
   Snapshot_isPending (Snapshot_init None) \<and> \<not> Snapshot_isDeleted (Snapshot_init None)"
  using isPending_isDeleted_iff [of failed_pending]
    isPending_isDeleted_iff [of "Snapshot_init None"]
  by (simp add: failed_pending_def Snapshot_pendingFailed_def Snapshot_setPending_def
      Snapshot_init_def)


section \<open>Size strings\<close>

text \<open>
  C3, as the code has it. \<^verbatim>\<open>sizeString()\<close> compares with \<open>\<le>\<close>, so a size that is exactly a
  unit boundary is still written in the lower unit: 1023 bytes give \<^verbatim>\<open>1023 B\<close>, 1024 bytes
  give \<^verbatim>\<open>1024 B\<close>, 1024 * 1024 bytes give \<^verbatim>\<open>1024 kB\<close>, and 1024 * 1024 * 1024 - 1 bytes give
  \<^verbatim>\<open>1023 MB\<close> (the quotient is truncated).
\<close>

theorem sizeString_boundaries:
  assumes "Snapshot_size s1 = Inr (Some 1023)"
    and "Snapshot_size s2 = Inr (Some 1024)"
    and "Snapshot_size s3 = Inr (Some (1024 * 1024))"
    and "Snapshot_size s4 = Inr (Some (1024 * 1024 * 1024 - 1))"
  shows "Snapshot_sizeString s1 = Inr ''1023 B'' \<and>
         Snapshot_sizeString s2 = Inr ''1024 B'' \<and>
         Snapshot_sizeString s3 = Inr ''1024 kB'' \<and>
         Snapshot_sizeString s4 = Inr ''1023 MB''"
  using sizeString_small [OF assms(1)] sizeString_small [OF assms(2)]
    sizeString_small [OF assms(3)] sizeString_small [OF assms(4)]
  by (simp add: str_int_1023 str_int_1024)

theorem sizeString_boundaries_witness:
  "Snapshot_size (sized 1023) = Inr (Some 1023) \<and>
   Snapshot_size (sized 1024) = Inr (Some 1024) \<and>
   Snapshot_size (sized (1024 * 1024)) = Inr (Some (1024 * 1024)) \<and>
   Snapshot_size (sized (1024 * 1024 * 1024 - 1)) = Inr (Some (1024 * 1024 * 1024 - 1)) \<and>
   Snapshot_sizeString (sized 1023) = Inr ''1023 B'' \<and>
   Snapshot_sizeString (sized 1024) = Inr ''1024 B'' \<and>
   Snapshot_sizeString (sized (1024 * 1024)) = Inr ''1024 kB'' \<and>
   Snapshot_sizeString (sized (1024 * 1024 * 1024 - 1)) = Inr ''1023 MB''"
  using sizeString_boundaries [OF size_sized size_sized size_sized size_sized]
  by (simp add: size_sized)

text \<open>
  The boundary table of the specification asks for \<^verbatim>\<open>1 kB\<close> at 1024 bytes and \<^verbatim>\<open>1 MB\<close> at
  1024 * 1024 bytes; the code returns \<^verbatim>\<open>1024 B\<close> and \<^verbatim>\<open>1024 kB\<close> there.
\<close>

theorem sizeString_1024_counterexample:
  "Snapshot_size (sized 1024) = Inr (Some 1024) \<and>
   Snapshot_sizeString (sized 1024) = Inr ''1024 B'' \<and>
   Snapshot_sizeString (sized 1024) \<noteq> Inr ''1 kB'' \<and>
   Snapshot_size (sized (1024 * 1024)) = Inr (Some (1024 * 1024)) \<and>
   Snapshot_sizeString (sized (1024 * 1024)) = Inr ''1024 kB'' \<and>
   Snapshot_sizeString (sized (1024 * 1024)) \<noteq> Inr ''1 MB''"
  using sizeString_small [OF size_sized, of 1024]
    sizeString_small [OF size_sized, of "1024 * 1024"]
  by (simp add: size_sized str_int_1024)

section \<open>Type and version\<close>

text \<open>
  C4, evaluated. On an aggregate with a Drive record only, \<^verbatim>\<open>snapshotType()\<close> raises
  \<^verbatim>\<open>AttributeError\<close> where the record's type is \<^verbatim>\<open>partial\<close>, and \<^verbatim>\<open>version()\<close> returns the
  record's type \<^verbatim>\<open>partial\<close> where its version is \<^verbatim>\<open>0.91\<close>. On an aggregate with a Home
  Assistant record, \<^verbatim>\<open>version()\<close> returns the record's type \<^verbatim>\<open>full\<close> where its version is
  \<^verbatim>\<open>0.92\<close>.
\<close>

theorem snapshotType_version_remote_only:
  "Snapshot_snapshotType (Snapshot_init (Some (Drive d0))) = Inl (AttributeError ''driveItem'') \<and>
   DriveSnapshot_snapshotType store0 d0 = Inr ''partial'' \<and>
   Snapshot_version store0 (Snapshot_init (Some (Drive d0))) = Inr ''partial'' \<and>
   DriveSnapshot_version store0 d0 = Inr ''0.91'' \<and>
   Snapshot_version store0 (Snapshot_init (Some (HA a0))) = Inr ''full'' \<and>
   HASnapshot_version a0 = Inr ''0.92''"
  by (simp add: Snapshot_snapshotType_def Snapshot_version_def Snapshot_init_def
      DriveSnapshot_snapshotType_def DriveSnapshot_version_def props_get_def
      HASnapshot_snapshotType_def HASnapshot_version_def ha_item_def
      PROP_TYPE_def PROP_VERSION_def d0_def raw0_def store0_def a0_def raw_ha0_def)

section \<open>Updating a record\<close>

text \<open>
  C5, evaluated. \<^verbatim>\<open>update\<close> with a Drive record leaves the Drive slot as it was: a pending
  aggregate is still not in Drive, and an aggregate holding the record \<open>d0\<close> of 1024 bytes
  still holds it after \<^verbatim>\<open>update\<close> with the fresh record of 2048 bytes, which lands in the
  attribute \<^verbatim>\<open>drive\<close>; \<^verbatim>\<open>size()\<close> still answers 1024.
\<close>

theorem update_remote_not_attached:
  "Snapshot_isInDrive (Snapshot_update (Drive d0) (Snapshot_init None)) = False \<and>
   driveitem (Snapshot_update (Drive d_fresh) (Snapshot_init (Some (Drive d0)))) = Some d0 \<and>
   drive (Snapshot_update (Drive d_fresh) (Snapshot_init (Some (Drive d0)))) = Some d_fresh \<and>
   DriveSnapshot_size d_fresh = Some 2048 \<and>
   Snapshot_size (Snapshot_update (Drive d_fresh) (Snapshot_init (Some (Drive d0)))) =
     Inr (Some 1024)"
  by (simp add: Snapshot_update_def Snapshot_init_def Snapshot_isInDrive_def Snapshot_size_def
      DriveSnapshot_size_def d0_def d_fresh_def raw0_def)

text \<open>
  C9. Calling \<^verbatim>\<open>update\<close> twice with the same Home Assistant record leaves the aggregate as
  one call does, so every derived accessor answers the same: name, slug, size, date,
  snapshotType, version, protected, status, sizeString, isPending and isDeleted.
\<close>

theorem update_local_idempotent:
  "Snapshot_update (HA l) (Snapshot_update (HA l) s) = Snapshot_update (HA l) s \<and>
   Snapshot_name st (Snapshot_update (HA l) (Snapshot_update (HA l) s)) =
     Snapshot_name st (Snapshot_update (HA l) s) \<and>
   Snapshot_slug st (Snapshot_update (HA l) (Snapshot_update (HA l) s)) =
     Snapshot_slug st (Snapshot_update (HA l) s) \<and>
   Snapshot_size (Snapshot_update (HA l) (Snapshot_update (HA l) s)) =
     Snapshot_size (Snapshot_update (HA l) s) \<and>
   Snapshot_date now (Snapshot_update (HA l) (Snapshot_update (HA l) s)) =
     Snapshot_date now (Snapshot_update (HA l) s) \<and>
   Snapshot_snapshotType (Snapshot_update (HA l) (Snapshot_update (HA l) s)) =
     Snapshot_snapshotType (Snapshot_update (HA l) s) \<and>
   Snapshot_version st (Snapshot_update (HA l) (Snapshot_update (HA l) s)) =
     Snapshot_version st (Snapshot_update (HA l) s) \<and>
   Snapshot_protected st (Snapshot_update (HA l) (Snapshot_update (HA l) s)) =
     Snapshot_protected st (Snapshot_update (HA l) s) \<and>
   Snapshot_status (Snapshot_update (HA l) (Snapshot_update (HA l) s)) =
     Snapshot_status (Snapshot_update (HA l) s) \<and>
   Snapshot_sizeString (Snapshot_update (HA l) (Snapshot_update (HA l) s)) =
     Snapshot_sizeString (Snapshot_update (HA l) s) \<and>
   Snapshot_isPending (Snapshot_update (HA l) (Snapshot_update (HA l) s)) =
     Snapshot_isPending (Snapshot_update (HA l) s) \<and>
   Snapshot_isDeleted (Snapshot_update (HA l) (Snapshot_update (HA l) s)) =
     Snapshot_isDeleted (Snapshot_update (HA l) s)"
proof -
  have "Snapshot_update (HA l) (Snapshot_update (HA l) s) = Snapshot_update (HA l) s"
    by (simp add: Snapshot_update_def)
  then show ?thesis by simp
qed


theorem update_local_idempotent_witness:
  "Snapshot_name store0 (Snapshot_update (HA a0) (Snapshot_update (HA a0) (Snapshot_init None))) =
     Inr ''Full'' \<and>
   Snapshot_status (Snapshot_update (HA a0) (Snapshot_update (HA a0) (Snapshot_init None))) =
     ''Waiting'' \<and>
   Snapshot_isPending (Snapshot_update (HA a0) (Snapshot_update (HA a0) (Snapshot_init None))) =
     False"
  using update_local_idempotent [of a0 "Snapshot_init None" store0 0]
  by (simp add: Snapshot_update_def Snapshot_init_def Snapshot_name_def HASnapshot_name_def
      ha_item_def a0_def raw_ha0_def Snapshot_status_def Snapshot_isRestoring_def
      Snapshot_isDownloading_def Snapshot_isInDrive_def Snapshot_isInHA_def
      Snapshot_isPending_def)

section \<open>The retained flag of a Drive record\<close>

text \<open>
  C6, evaluated. The copy that \<^verbatim>\<open>DriveSnapshot.__init__\<close> takes is shallow: the nested
  mapping \<^verbatim>\<open>appProperties\<close> of the copy is the caller's own object. After the record \<open>d0\<close>
  is built from the caller's record \<open>raw0\<close>, \<^verbatim>\<open>setRetain(True)\<close> makes \<^verbatim>\<open>retained()\<close> true, and
  the caller's \<^verbatim>\<open>appProperties\<close>, five entries before the call, has the sixth entry
  \<^verbatim>\<open>retained\<close> after it.
\<close>

theorem setRetain_changes_caller_record:
  "DriveSnapshot_init parse_epoch store0 raw0 = Inr d0 \<and>
   caller_props store0 raw0 =
     Some [(''snapshot_slug'', ''abc''), (''snapshot_date'', ''100''),
           (''snapshot_name'', ''Full''), (''type'', ''partial''), (''version'', ''0.91'')] \<and>
   map_sum id (\<lambda>st. caller_props st raw0) (DriveSnapshot_setRetain True d0 store0) =
     Inr (Some [(''snapshot_slug'', ''abc''), (''snapshot_date'', ''100''),
                (''snapshot_name'', ''Full''), (''type'', ''partial''), (''version'', ''0.91''),
                (''retained'', ''True'')]) \<and>
   map_sum id (\<lambda>st. DriveSnapshot_retained st d0) (DriveSnapshot_setRetain True d0 store0) =
     Inr (Inr True)"
  using d0_constructed
  by (simp add: caller_props_def DriveSnapshot_setRetain_def
      DriveSnapshot_retained_def props_get_def PROP_RETAINED_def str_bool_def
      d0_def raw0_def store0_def)

section \<open>Pending retention\<close>

text \<open>
  C7, as the code has it. On an aggregate with no local record, no remote record and the
  pending-failed flag unset, after \<^verbatim>\<open>setPending(name, date, True, False)\<close> the aggregate is
  pending and \<^verbatim>\<open>driveRetained()\<close> is false; after a following \<^verbatim>\<open>setDrive(r)\<close> with a record
  whose \<^verbatim>\<open>retained()\<close> is false, \<^verbatim>\<open>driveRetained()\<close> is true.
\<close>

theorem setPending_setDrive_retained:
  assumes "DriveSnapshot_retained st r = Inr False"
    and "ha s = None" and "driveitem s = None" and "\<not> pendingHasFailed s"
  shows "Snapshot_isPending (Snapshot_setPending n t True False s) \<and>
         Snapshot_driveRetained st (Snapshot_setPending n t True False s) = Inr False \<and>
         Snapshot_driveRetained st
           (Snapshot_setDrive r (Snapshot_setPending n t True False s)) = Inr True"
  using assms
  by (simp add: Snapshot_isPending_def Snapshot_isInHA_def Snapshot_setPending_def
      Snapshot_setDrive_def Snapshot_driveRetained_def)

theorem setPending_setDrive_retained_witness:
  "DriveSnapshot_retained store0 d0 = Inr False \<and>
   ha (Snapshot_init None) = None \<and> driveitem (Snapshot_init None) = None \<and>
   \<not> pendingHasFailed (Snapshot_init None) \<and>
   Snapshot_isPending (Snapshot_setPending ''n'' 7 True False (Snapshot_init None)) \<and>
   Snapshot_driveRetained store0 (Snapshot_setPending ''n'' 7 True False (Snapshot_init None)) =
     Inr False \<and>
   Snapshot_driveRetained store0
     (Snapshot_setDrive d0 (Snapshot_setPending ''n'' 7 True False (Snapshot_init None))) =
     Inr True"
proof -
  have h: "ha (Snapshot_init None) = None" "driveitem (Snapshot_init None) = None"
    "\<not> pendingHasFailed (Snapshot_init None)"
    by (simp_all add: Snapshot_init_def)
  from setPending_setDrive_retained [OF d0_not_retained h, of "''n''" 7] d0_not_retained h
  show ?thesis by simp
qed

text \<open>
  On an aggregate built from a local record, \<^verbatim>\<open>setPending\<close> does not make \<^verbatim>\<open>isPending()\<close>
  true; on one built from a remote record, \<^verbatim>\<open>driveRetained()\<close> is true right after
  \<^verbatim>\<open>setPending\<close>.
\<close>

theorem setPending_local_counterexample:
  "\<not> Snapshot_isPending (Snapshot_setPending ''n'' 7 True False (Snapshot_init (Some (HA a0)))) \<and>
   Snapshot_driveRetained store0
     (Snapshot_setPending ''n'' 7 True False (Snapshot_init (Some (Drive d0)))) = Inr True"
  by (simp add: Snapshot_isPending_def Snapshot_isInHA_def Snapshot_setPending_def
      Snapshot_init_def Snapshot_driveRetained_def DriveSnapshot_retained_def props_get_def
      PROP_RETAINED_def d0_def raw0_def store0_def)

section \<open>Constructing a Drive record\<close>

text \<open>
  C8, as the code has it. The constructor reads the key \<^verbatim>\<open>snapshot_date\<close> only. A record
  whose \<^verbatim>\<open>appProperties\<close> lacks it fails with \<^verbatim>\<open>KeyError\<close> naming the key. A record whose
  \<^verbatim>\<open>appProperties\<close> holds a date that parses is constructed, whether or not the slug and
  the name are there; a missing slug or name is a \<^verbatim>\<open>KeyError\<close> naming the key when \<^verbatim>\<open>slug()\<close>
  or \<^verbatim>\<open>name()\<close> is called.
\<close>

theorem init_reads_date_only:
  assumes "raw_appProperties src1 = Some a1" and "map_of (st a1) PROP_KEY_DATE = None"
    and "raw_appProperties src2 = Some a2" and "map_of (st a2) PROP_KEY_DATE = Some v"
    and "parse (SStr v) = Inr t"
  shows "DriveSnapshot_init parse st src1 = Inl (KeyError ''snapshot_date'') \<and>
         DriveSnapshot_init parse st src2 = Inr \<lparr>drive_source = src2, drive_date = t\<rparr> \<and>
         DriveSnapshot_slug st \<lparr>drive_source = src2, drive_date = t\<rparr> =
           (case map_of (st a2) PROP_KEY_SLUG of
              None \<Rightarrow> Inl (KeyError ''snapshot_slug'') | Some x \<Rightarrow> Inr x) \<and>
         DriveSnapshot_name st \<lparr>drive_source = src2, drive_date = t\<rparr> =
           (case map_of (st a2) PROP_KEY_NAME of
              None \<Rightarrow> Inl (KeyError ''snapshot_name'') | Some x \<Rightarrow> Inr x)"
  using assms
  by (simp add: DriveSnapshot_init_def props_item_def DriveSnapshot_slug_def
      DriveSnapshot_name_def PROP_KEY_DATE_def PROP_KEY_SLUG_def PROP_KEY_NAME_def)

theorem init_reads_date_only_witness:
  "raw_appProperties raw_no_date = Some 2 \<and> map_of (store0 2) PROP_KEY_DATE = None \<and>
   raw_appProperties raw_date_only = Some 1 \<and> map_of (store0 1) PROP_KEY_DATE = Some ''100'' \<and>
   parse_epoch (SStr ''100'') = Inr 100 \<and>
   DriveSnapshot_init parse_epoch store0 raw_no_date = Inl (KeyError ''snapshot_date'') \<and>
   DriveSnapshot_init parse_epoch store0 raw_date_only =
     Inr \<lparr>drive_source = raw_date_only, drive_date = 100\<rparr> \<and>
   DriveSnapshot_slug store0 \<lparr>drive_source = raw_date_only, drive_date = 100\<rparr> =
     Inl (KeyError ''snapshot_slug'') \<and>
   DriveSnapshot_name store0 \<lparr>drive_source = raw_date_only, drive_date = 100\<rparr> =
     Inl (KeyError ''snapshot_name'')"
proof -
  have h: "raw_appProperties raw_no_date = Some 2" "map_of (store0 2) PROP_KEY_DATE = None"
    "raw_appProperties raw_date_only = Some 1" "map_of (store0 1) PROP_KEY_DATE = Some ''100''"
    by (simp_all add: raw_no_date_def raw_date_only_def store0_def PROP_KEY_DATE_def)
  have k: "map_of (store0 1) PROP_KEY_SLUG = None" "map_of (store0 1) PROP_KEY_NAME = None"
    by (simp_all add: store0_def PROP_KEY_SLUG_def PROP_KEY_NAME_def)
  from init_reads_date_only [where st = store0 and parse = parse_epoch, OF h parse_epoch_100]
    h k parse_epoch_100
  show ?thesis by simp
qed

text \<open>
  A record whose \<^verbatim>\<open>appProperties\<close> holds the date but neither the slug nor the name is
  constructed without an error.
\<close>

theorem init_missing_slug_name_counterexample:
  "map_of (store0 1) PROP_KEY_SLUG = None \<and> map_of (store0 1) PROP_KEY_NAME = None \<and>
   raw_appProperties raw_date_only = Some 1 \<and>
   DriveSnapshot_init parse_epoch store0 raw_date_only =
     Inr \<lparr>drive_source = raw_date_only, drive_date = 100\<rparr>"
  by (simp add: DriveSnapshot_init_def props_item_def PROP_KEY_DATE_def PROP_KEY_SLUG_def
      PROP_KEY_NAME_def store0_def raw_date_only_def parse_epoch_100)

section \<open>The download failure flag\<close>

text \<open>
  C10. Once \<^verbatim>\<open>downloadFailed()\<close> has set the failure flag, \<^verbatim>\<open>setDownloading(p)\<close> leaves it
  set, and with \<open>p \<ge> 0\<close> and restoring unset the status is \<^verbatim>\<open>Loading Failed!\<close>. Of all the
  methods of the aggregate, only \<^verbatim>\<open>setHA\<close> turns a set flag off.
\<close>

theorem setDownloading_keeps_failure:
  assumes "Snapshot_downloadFailed s0 = Inr s" and "0 \<le> p" and "restoring s = None"
  shows "donwload_failed (Snapshot_setDownloading p s) \<and>
         Snapshot_status (Snapshot_setDownloading p s) = ''Loading Failed!'' \<and>
         (\<forall>c s1 s2. donwload_failed s1 \<and> step c s1 = Inr s2 \<and> \<not> donwload_failed s2
            \<longrightarrow> is_SetHA c)"
proof -
  from assms(1) have f: "donwload_failed s"
    by (auto simp: Snapshot_downloadFailed_def split: option.splits)
  have "donwload_failed (Snapshot_setDownloading p s)"
    using f by (simp add: Snapshot_setDownloading_def)
  moreover have "Snapshot_status (Snapshot_setDownloading p s) = ''Loading Failed!''"
    using f assms(2,3)
    by (simp add: Snapshot_status_def Snapshot_setDownloading_def Snapshot_isRestoring_def
        Snapshot_isDownloading_def)
  moreover have "\<forall>c s1 s2. donwload_failed s1 \<and> step c s1 = Inr s2 \<and> \<not> donwload_failed s2
            \<longrightarrow> is_SetHA c"
    using step_keeps_failure by blast
  ultimately show ?thesis by simp
qed

theorem setDownloading_keeps_failure_witness:
  "Snapshot_downloadFailed (Snapshot_init (Some (Drive d0))) = Inr failed_download \<and>
   (0::int) \<le> 30 \<and> restoring failed_download = None \<and>
   donwload_failed (Snapshot_setDownloading 30 failed_download) \<and>
   Snapshot_status (Snapshot_setDownloading 30 failed_download) = ''Loading Failed!'' \<and>
   donwload_failed failed_download \<and>
   step (SetHA a0) failed_download = Inr (Snapshot_setHA a0 failed_download) \<and>
   \<not> donwload_failed (Snapshot_setHA a0 failed_download) \<and>
   is_SetHA (SetHA a0)"
proof -
  have h: "Snapshot_downloadFailed (Snapshot_init (Some (Drive d0))) = Inr failed_download"
    by (simp add: Snapshot_downloadFailed_def Snapshot_init_def failed_download_def)
  have r: "restoring failed_download = None"
    by (simp add: failed_download_def Snapshot_init_def)
  have z: "(0::int) \<le> 30" by simp
  from setDownloading_keeps_failure [OF h z r] h r
  show ?thesis
    by (simp add: failed_download_def Snapshot_setHA_def Snapshot_init_def)
qed

end
